theory Spec2Isabelle
  imports Main "HOL-Library.Word" "HOL-Library.Char_ord" "HOL-Library.List_Lexorder"
begin

unbundle bit_operations_syntax

section \<open>Constant-time comparison (src/utils/crypto.ts)\<close>

text \<open>
  A JavaScript string is a sequence of 16-bit code units. \<open>charCodeAt\<close> yields a code
  unit as a number in \<open>0..65535\<close>; the operators \<open>^\<close> and \<open>|=\<close> work on 32-bit
  integers (ToInt32 of each operand), so the accumulator \<open>result\<close> is a 32-bit word,
  a length enters it modulo \<open>2 ^ 32\<close> and a code unit is zero-extended.
\<close>

type_synonym code_unit = "16 word"
type_synonym jsstring = "code_unit list"

text \<open>
  The loop \<open>for (let i = 0; i < maxLen; i++)\<close> of \<open>timingSafeEqual\<close>, started at index
  \<open>i\<close> with the accumulator \<open>result\<close>. The last argument is a ghost counter of the loop
  bodies executed; the source has no such variable, the result never reads it.
\<close>

function timingSafeEqual_loop ::
  "jsstring \<Rightarrow> jsstring \<Rightarrow> nat \<Rightarrow> nat \<Rightarrow> 32 word \<Rightarrow> nat \<Rightarrow> 32 word \<times> nat" where
  "timingSafeEqual_loop a b maxLen i result iters =
     (if i < maxLen then
        (let charA = (if i < length a then ucast (a ! i) else 0);
             charB = (if i < length b then ucast (b ! i) else 0)
         in timingSafeEqual_loop a b maxLen (i + 1) (result OR (charA XOR charB)) (iters + 1))
      else (result, iters))"
  by pat_completeness auto
termination
  by (relation "measure (\<lambda>(a, b, maxLen, i, result, iters). maxLen - i)") auto

declare timingSafeEqual_loop.simps [simp del]

definition timingSafeEqual_run :: "jsstring \<Rightarrow> jsstring \<Rightarrow> 32 word \<times> nat" where
  "timingSafeEqual_run a b =
     (let maxLen = max (length a) (length b);
          result = word_of_nat (length a) XOR word_of_nat (length b)
      in timingSafeEqual_loop a b maxLen 0 result 0)"

definition timingSafeEqual :: "jsstring \<Rightarrow> jsstring \<Rightarrow> bool" where
  "timingSafeEqual a b = (fst (timingSafeEqual_run a b) = 0)"

definition timingSafeEqual_iterations :: "jsstring \<Rightarrow> jsstring \<Rightarrow> nat" where
  "timingSafeEqual_iterations a b = snd (timingSafeEqual_run a b)"

text \<open>The code units of an ASCII literal.\<close>

definition code_units :: "string \<Rightarrow> jsstring" where
  "code_units s = map (\<lambda>c. word_of_nat (of_char c)) s"

text \<open>
  The guarded read of the loop body,
  \<open>i < s.length ? s.charCodeAt(i) : 0\<close>, as a function of the index.
\<close>

definition unit_at :: "jsstring \<Rightarrow> nat \<Rightarrow> 32 word" where
  "unit_at s i = (if i < length s then ucast (s ! i) else 0)"

section \<open>Strings and regular expressions\<close>

text \<open>
  URLs, host names, header names and values and cookie lines are ASCII text and are
  modelled as \<open>string\<close>. \<open>toLowerCase\<close> is \<open>String.prototype.toLowerCase\<close> on such
  text: the letters \<open>A\<close> to \<open>Z\<close> map to \<open>a\<close> to \<open>z\<close>, every other character is kept.
\<close>

definition toLowerCase_char :: "char \<Rightarrow> char" where
  "toLowerCase_char c =
     (case map_of (zip ''ABCDEFGHIJKLMNOPQRSTUVWXYZ'' ''abcdefghijklmnopqrstuvwxyz'') c of
        Some l \<Rightarrow> l | None \<Rightarrow> c)"

definition toLowerCase :: "string \<Rightarrow> string" where
  "toLowerCase s = map toLowerCase_char s"

text \<open>
  The regular expressions of the guard all start with \<open>^\<close> and consist of single
  characters and character classes, with one alternation. Such an expression is a list
  of alternatives, each a list of character classes (a class is the list of the
  characters it admits; under the flag \<open>i\<close> a letter is the class of its two cases),
  and a flag that tells whether it ends with \<open>$\<close>. \<open>RegExp_test\<close> is
  \<open>RegExp.prototype.test\<close>.
\<close>

type_synonym char_class = "char list"

datatype RegExp = RegExp (alternatives: "char_class list list") (to_end: bool)

fun match_atoms :: "char_class list \<Rightarrow> bool \<Rightarrow> string \<Rightarrow> bool" where
  "match_atoms [] e s = (if e then s = [] else True)"
| "match_atoms (cls # p) e [] = False"
| "match_atoms (cls # p) e (c # s) = (c \<in> set cls \<and> match_atoms p e s)"

definition RegExp_test :: "RegExp \<Rightarrow> string \<Rightarrow> bool" where
  "RegExp_test r s = list_ex (\<lambda>p. match_atoms p (to_end r) s) (alternatives r)"

definition lit :: "string \<Rightarrow> char_class list" where
  "lit s = map (\<lambda>c. [c]) s"

definition digits :: char_class where
  "digits = ''0123456789''"

definition hex_digits_i :: char_class where
  "hex_digits_i = ''0123456789abcdefABCDEF''"

section \<open>URL guard (src/utils/http/http-client.ts)\<close>

text \<open>
  \<open>PRIVATE_IP_PATTERNS\<close>, in the order of the source: \<open>/^127\./\<close>, \<open>/^10\./\<close>,
  \<open>/^172\.(1[6-9]|2[0-9]|3[0-1])\./\<close> (its three alternatives written out),
  \<open>/^192\.168\./\<close>, \<open>/^169\.254\./\<close>, \<open>/^0\./\<close>.
\<close>

definition PRIVATE_IP_PATTERNS :: "RegExp list" where
  "PRIVATE_IP_PATTERNS =
     [RegExp [lit ''127.''] False,
      RegExp [lit ''10.''] False,
      RegExp [lit ''172.'' @ [''1'', ''6789''] @ lit ''.'',
              lit ''172.'' @ [''2'', digits] @ lit ''.'',
              lit ''172.'' @ [''3'', ''01''] @ lit ''.''] False,
      RegExp [lit ''192.168.''] False,
      RegExp [lit ''169.254.''] False,
      RegExp [lit ''0.''] False]"

definition BLOCKED_HOSTNAMES :: "string list" where
  "BLOCKED_HOSTNAMES =
     [''localhost'', ''localhost.localdomain'', ''ip6-localhost'', ''ip6-loopback'', ''0.0.0.0'']"

text \<open>
  \<open>BLOCKED_IPV6_PATTERNS\<close>, in the order of the source: \<open>/^::1$/\<close>, \<open>/^\[::1\]$/\<close>,
  \<open>/^::ffff:/i\<close>, \<open>/^fc[0-9a-f]{2}:/i\<close>, \<open>/^fd[0-9a-f]{2}:/i\<close>, \<open>/^fe80:/i\<close>.
\<close>

definition BLOCKED_IPV6_PATTERNS :: "RegExp list" where
  "BLOCKED_IPV6_PATTERNS =
     [RegExp [lit ''::1''] True,
      RegExp [lit ''[::1]''] True,
      RegExp [lit ''::'' @ [''fF'', ''fF'', ''fF'', ''fF''] @ lit '':''] False,
      RegExp [[''fF'', ''cC'', hex_digits_i, hex_digits_i] @ lit '':''] False,
      RegExp [[''fF'', ''dD'', hex_digits_i, hex_digits_i] @ lit '':''] False,
      RegExp [[''fF'', ''eE''] @ lit ''80:''] False]"

text \<open>
  The error classes come from \<open>utils/error/errors.ts\<close>, which is not among the sources;
  the client constructs these two, each with a message. The specification calls a
  \<open>BadRequestError\<close> of the guard an InvalidTargetError and the \<open>InternalServerError\<close> of
  the client a NetworkError.
\<close>

datatype AppError = BadRequestError string | InternalServerError string

text \<open>
  The platform's URL object, with the two components the guard reads, \<open>protocol\<close> (the
  scheme followed by a colon) and \<open>hostname\<close>, and its port (\<open>None\<close> when absent or the
  default of the scheme).
\<close>

record URL =
  protocol :: string
  hostname :: string
  port :: "nat option"

text \<open>
  \<open>validateUrl\<close>. The constructor \<open>new URL\<close> belongs to the platform and is a
  parameter: \<open>None\<close> where it throws. The two \<open>for\<close> loops return at the first pattern
  that matches, with one error for every pattern of a list, so each is \<open>list_ex\<close>.
\<close>

definition validateUrl :: "(string \<Rightarrow> URL option) \<Rightarrow> string \<Rightarrow> AppError + URL" where
  "validateUrl newURL urlString =
     (case newURL urlString of
        None \<Rightarrow> Inl (BadRequestError ''Invalid URL format'')
      | Some url \<Rightarrow>
          if protocol url \<noteq> ''http:'' \<and> protocol url \<noteq> ''https:''
          then Inl (BadRequestError (''Blocked protocol: '' @ protocol url))
          else
            let hostname = toLowerCase (URL.hostname url) in
            if hostname \<in> set BLOCKED_HOSTNAMES
            then Inl (BadRequestError ''Blocked hostname: localhost'')
            else if list_ex (\<lambda>pattern. RegExp_test pattern hostname) PRIVATE_IP_PATTERNS
            then Inl (BadRequestError ''Blocked: private IP address'')
            else if list_ex (\<lambda>pattern. RegExp_test pattern hostname) BLOCKED_IPV6_PATTERNS
            then Inl (BadRequestError ''Blocked: private IPv6 address'')
            else Inr url)"

section \<open>The platform's URL constructor\<close>

text \<open>
  \<open>new_URL\<close> models \<open>new URL(input)\<close> of the WHATWG URL Standard, without a base URL,
  on a fragment of its inputs; the statements about concrete URL strings are made with
  it. The parser strips leading and trailing control characters and spaces and removes
  tabs and newlines; reads the scheme up to the first colon and lower-cases it; for a
  special scheme skips the slashes and backslashes that follow; takes the authority up
  to the next slash, backslash, question mark or number sign; drops the credentials up
  to the last at-sign; splits host and port at the first colon outside square brackets;
  fails on an empty host and on a port that is not a number up to 65535. The host
  serialiser writes a domain in lower case, an IPv4 address in dotted decimal and an IPv6
  address in lower case, compressed, between square brackets: \<open>hostname\<close> keeps the
  brackets.

  The fragment: the schemes \<open>ftp\<close>, \<open>http\<close>, \<open>https\<close>, \<open>ws\<close>, \<open>wss\<close>; a host that is
  a domain of ASCII letters, digits, \<open>-\<close>, \<open>.\<close> and \<open>_\<close> without a punycode label, or
  an IPv4 address already in dotted decimal, or a bracketed IPv6 address already in
  compressed form (one \<open>::\<close>, at most six pieces, no piece with a leading zero). On
  these the result is the one of the platform. \<open>None\<close> stands for a failure of the
  parser and also for an input outside the fragment, where the model says nothing.
\<close>

definition is_alpha :: "char \<Rightarrow> bool" where
  "is_alpha c = (c \<in> set ''abcdefghijklmnopqrstuvwxyzABCDEFGHIJKLMNOPQRSTUVWXYZ'')"

definition is_digit :: "char \<Rightarrow> bool" where
  "is_digit c = (c \<in> set ''0123456789'')"

definition is_hex :: "char \<Rightarrow> bool" where
  "is_hex c = (c \<in> set ''0123456789abcdefABCDEF'')"

definition is_c0_or_space :: "char \<Rightarrow> bool" where
  "is_c0_or_space c = ((of_char c :: nat) \<le> 32)"

definition is_tab_or_newline :: "char \<Rightarrow> bool" where
  "is_tab_or_newline c = (c \<in> set [CHR 0x09, CHR 0x0A, CHR 0x0D])"

text \<open>The special schemes other than \<open>file\<close>, with their default ports.\<close>

definition special_schemes :: "(string \<times> nat) list" where
  "special_schemes = [(''ftp'', 21), (''http'', 80), (''https'', 443), (''ws'', 80), (''wss'', 443)]"

definition valid_scheme :: "string \<Rightarrow> bool" where
  "valid_scheme s =
     (case s of
        [] \<Rightarrow> False
      | c # cs \<Rightarrow> is_alpha c \<and> list_all (\<lambda>d. is_alpha d \<or> is_digit d \<or> d \<in> set ''+-.'') cs)"

fun split_on :: "char \<Rightarrow> string \<Rightarrow> string list" where
  "split_on d [] = [[]]"
| "split_on d (c # cs) =
     (if c = d then [] # split_on d cs
      else (case split_on d cs of [] \<Rightarrow> [[c]] | x # xs \<Rightarrow> (c # x) # xs))"

text \<open>Host and port: the host ends at the first colon outside square brackets.\<close>

fun split_host :: "bool \<Rightarrow> string \<Rightarrow> string \<times> string option" where
  "split_host inside [] = ([], None)"
| "split_host inside (c # cs) =
     (if c = CHR '':'' \<and> \<not> inside then ([], Some cs)
      else
        (case split_host (if c = CHR ''['' then True else if c = CHR '']'' then False else inside) cs of
           (h, p) \<Rightarrow> (c # h, p)))"

definition decimal :: "string \<Rightarrow> nat" where
  "decimal s = foldl (\<lambda>n c. 10 * n + (of_char c - of_char CHR ''0'')) 0 s"

text \<open>
  The port: the outer \<open>None\<close> is a failure, \<open>Some None\<close> no port or the default one.
\<close>

definition parse_port :: "nat \<Rightarrow> string option \<Rightarrow> nat option option" where
  "parse_port dflt p =
     (case p of
        None \<Rightarrow> Some None
      | Some ds \<Rightarrow>
          if \<not> list_all is_digit ds then None
          else if ds = [] then Some None
          else if 65535 < decimal ds then None
          else if decimal ds = dflt then Some None
          else Some (Some (decimal ds)))"

text \<open>
  A host whose last label is a number (decimal digits, or \<open>0x\<close> and hexadecimal digits)
  is parsed as an IPv4 address.
\<close>

definition ends_in_number :: "string \<Rightarrow> bool" where
  "ends_in_number h =
     (let parts = split_on CHR ''.'' h;
          parts = (if last parts = [] \<and> 1 < length parts then butlast parts else parts);
          l = last parts
      in (l \<noteq> [] \<and> list_all is_digit l) \<or>
         (2 \<le> length l \<and> hd l = CHR ''0'' \<and> (l ! 1) \<in> set ''xX'' \<and> list_all is_hex (drop 2 l)))"

definition canonical_octet :: "string \<Rightarrow> bool" where
  "canonical_octet s =
     (s \<noteq> [] \<and> list_all is_digit s \<and> length s \<le> 3 \<and>
      (if hd s = CHR ''0'' then length s = 1 else True) \<and> decimal s \<le> 255)"

definition canonical_ipv4 :: "string \<Rightarrow> bool" where
  "canonical_ipv4 h =
     (let parts = split_on CHR ''.'' h in length parts = 4 \<and> list_all canonical_octet parts)"

fun split_double_colon :: "string \<Rightarrow> (string \<times> string) option" where
  "split_double_colon (c # d # cs) =
     (if c = CHR '':'' \<and> d = CHR '':'' then Some ([], cs)
      else map_option (\<lambda>(l, r). (c # l, r)) (split_double_colon (d # cs)))"
| "split_double_colon cs = None"

definition canonical_piece :: "string \<Rightarrow> bool" where
  "canonical_piece s =
     (s \<noteq> [] \<and> length s \<le> 4 \<and> list_all is_hex s \<and> hd s \<noteq> CHR ''0'')"

definition pieces :: "string \<Rightarrow> string list" where
  "pieces s = (if s = [] then [] else split_on CHR '':'' s)"

definition compressed_ipv6 :: "string \<Rightarrow> bool" where
  "compressed_ipv6 a =
     (case split_double_colon a of
        None \<Rightarrow> False
      | Some (l, r) \<Rightarrow>
          list_all canonical_piece (pieces l @ pieces r) \<and> length (pieces l @ pieces r) \<le> 6)"

definition is_domain_char :: "char \<Rightarrow> bool" where
  "is_domain_char c = (is_alpha c \<or> is_digit c \<or> c \<in> set ''-._'')"

definition has_punycode_label :: "string \<Rightarrow> bool" where
  "has_punycode_label h = list_ex (\<lambda>l. take 4 l = ''xn--'') (split_on CHR ''.'' h)"

definition parse_host :: "string \<Rightarrow> string option" where
  "parse_host h =
     (if h = [] then None
      else if hd h = CHR ''['' then
        (if last h = CHR '']'' \<and> compressed_ipv6 (butlast (tl h)) then Some (toLowerCase h) else None)
      else if list_all is_domain_char h \<and> \<not> has_punycode_label (toLowerCase h) then
        (if ends_in_number h then (if canonical_ipv4 h then Some h else None)
         else Some (toLowerCase h))
      else None)"

definition new_URL :: "string \<Rightarrow> URL option" where
  "new_URL input =
     (let trimmed = rev (dropWhile is_c0_or_space (rev (dropWhile is_c0_or_space input)));
          cleaned = filter (\<lambda>c. \<not> is_tab_or_newline c) trimmed;
          scheme = toLowerCase (takeWhile (\<lambda>c. c \<noteq> CHR '':'') cleaned);
          rest = dropWhile (\<lambda>c. c \<noteq> CHR '':'') cleaned
      in if valid_scheme scheme \<and> rest \<noteq> [] then
           (case map_of special_schemes scheme of
              None \<Rightarrow> None
            | Some default_port \<Rightarrow>
                (let after = dropWhile (\<lambda>c. c \<in> set [CHR ''/'', CHR 0x5C]) (tl rest);
                     authority =
                       takeWhile (\<lambda>c. c \<notin> set [CHR ''/'', CHR 0x5C, CHR ''?'', CHR ''#'']) after;
                     hostport =
                       (if CHR ''@'' \<in> set authority
                        then rev (takeWhile (\<lambda>c. c \<noteq> CHR ''@'') (rev authority))
                        else authority)
                 in case split_host False hostport of
                      (h, p) \<Rightarrow>
                        (case parse_host h of
                           None \<Rightarrow> None
                         | Some host \<Rightarrow>
                             (case parse_port default_port p of
                                None \<Rightarrow> None
                              | Some prt \<Rightarrow>
                                  Some \<lparr>protocol = scheme @ '':'', hostname = host, port = prt\<rparr>))))
         else None)"

section \<open>Headers\<close>

text \<open>
  The platform's \<open>Headers\<close> object (Fetch Standard) is a header list, a list of name
  and value pairs. Names are case-insensitive and are kept in lower case, as the object
  shows them. \<open>append\<close> and \<open>set\<close> first strip the white space around the value, then
  validate: the name must be a token (one or more of the characters of \<open>is_tchar\<close>) and
  the stripped value a header value; otherwise they throw a TypeError and leave the list
  as it was. \<open>set\<close> overwrites the first header of the name and removes the others, or
  appends. \<open>get\<close> joins the values of a name with a comma and a space.
  \<open>Headers_entries\<close> is the sequence that \<open>forEach\<close> visits: the names sorted, each
  with its combined value, except \<open>set-cookie\<close>, whose values stay apart. The
  characters of a \<open>string\<close> are bytes, so a name or value with a code unit above 255,
  which the platform refuses as well, is not among the inputs.
\<close>

type_synonym Headers = "(string \<times> string) list"

datatype Exception = TypeError

definition is_http_whitespace :: "char \<Rightarrow> bool" where
  "is_http_whitespace c = (c \<in> set [CHR 0x09, CHR 0x0A, CHR 0x0D, CHR '' ''])"

definition normalize_value :: "string \<Rightarrow> string" where
  "normalize_value v = rev (dropWhile is_http_whitespace (rev (dropWhile is_http_whitespace v)))"

definition is_tchar :: "char \<Rightarrow> bool" where
  "is_tchar c =
     (is_alpha c \<or> is_digit c \<or> c \<in> set ''!#$%&*+-.^_|~'' \<or> c \<in> set [CHR 0x27, CHR 0x60])"

definition valid_header_name :: "string \<Rightarrow> bool" where
  "valid_header_name n = (n \<noteq> [] \<and> list_all is_tchar n)"

text \<open>
  A header value has no leading or trailing tab or space and holds no NUL, line feed or
  carriage return.
\<close>

definition valid_header_value :: "string \<Rightarrow> bool" where
  "valid_header_value v =
     (list_all (\<lambda>c. c \<notin> set [CHR 0x00, CHR 0x0A, CHR 0x0D]) v \<and>
      (if v = [] then True
       else hd v \<notin> set [CHR 0x09, CHR '' ''] \<and> last v \<notin> set [CHR 0x09, CHR '' '']))"

fun join :: "string \<Rightarrow> string list \<Rightarrow> string" where
  "join sep [] = []"
| "join sep [x] = x"
| "join sep (x # y # ys) = x @ sep @ join sep (y # ys)"

definition Headers_values :: "Headers \<Rightarrow> string \<Rightarrow> string list" where
  "Headers_values h n = map snd (filter (\<lambda>(k, v). k = n) h)"

definition Headers_append :: "Headers \<Rightarrow> string \<Rightarrow> string \<Rightarrow> Exception + Headers" where
  "Headers_append h name val =
     (let v = normalize_value val
      in if valid_header_name name \<and> valid_header_value v
         then Inr (h @ [(toLowerCase name, v)])
         else Inl TypeError)"

fun set_first :: "string \<Rightarrow> string \<Rightarrow> Headers \<Rightarrow> Headers" where
  "set_first n v [] = []"
| "set_first n v ((k, x) # h) =
     (if k = n then (k, v) # filter (\<lambda>(k', x'). k' \<noteq> n) h else (k, x) # set_first n v h)"

text \<open>The operation "set" of a header list, on a name in lower case.\<close>

definition header_list_set :: "string \<Rightarrow> string \<Rightarrow> Headers \<Rightarrow> Headers" where
  "header_list_set n v h = (if n \<in> set (map fst h) then set_first n v h else h @ [(n, v)])"

definition Headers_set :: "Headers \<Rightarrow> string \<Rightarrow> string \<Rightarrow> Exception + Headers" where
  "Headers_set h name val =
     (let v = normalize_value val
      in if valid_header_name name \<and> valid_header_value v
         then Inr (header_list_set (toLowerCase name) v h)
         else Inl TypeError)"

definition Headers_get :: "Headers \<Rightarrow> string \<Rightarrow> string option" where
  "Headers_get h name =
     (let vs = Headers_values h (toLowerCase name)
      in if vs = [] then None else Some (join '', '' vs))"

definition Headers_entries :: "Headers \<Rightarrow> (string \<times> string) list" where
  "Headers_entries h =
     concat (map (\<lambda>n. if n = ''set-cookie'' then map (Pair n) (Headers_values h n)
                        else [(n, join '', '' (Headers_values h n))])
                 (sort (remdups (map fst h))))"

text \<open>
  The entries of \<open>init\<close> appended in order to the header list \<open>h\<close>; the first invalid
  entry throws.
\<close>

fun append_all :: "(string \<times> string) list \<Rightarrow> Headers \<Rightarrow> Exception + Headers" where
  "append_all [] h = Inr h"
| "append_all ((key, val) # entries) h =
     (case Headers_append h key val of
        Inl e \<Rightarrow> Inl e
      | Inr h' \<Rightarrow> append_all entries h')"

text \<open>\<open>new Headers(init)\<close>.\<close>

definition Headers_new :: "(string \<times> string) list \<Rightarrow> Exception + Headers" where
  "Headers_new init = append_all init []"

text \<open>
  \<open>getSetCookie()\<close>: the values of all \<open>Set-Cookie\<close> headers, in order. It reads the
  headers of a response, whose names are matched whatever their case.
\<close>

definition Headers_getSetCookie :: "Headers \<Rightarrow> string list" where
  "Headers_getSetCookie h = map snd (filter (\<lambda>(k, v). toLowerCase k = ''set-cookie'') h)"

section \<open>Cookie jar\<close>

text \<open>
  The class \<open>CookieJar\<close> (\<open>utils/http/cookie-jar.ts\<close>) is not among the sources. The
  store is a mapping from cookie name to value that keeps insertion order: a list of
  pairs with distinct names.
\<close>

type_synonym CookieJar = "(string \<times> string) list"

text \<open>
  Modelled from the spec: the upsert of the Cookie Store (the body of the missing
  \<open>CookieJar.setCookies\<close>): an existing entry of the name is overwritten where it
  stands, a new name is added at the end.
\<close>

fun upsert :: "string \<Rightarrow> string \<Rightarrow> CookieJar \<Rightarrow> CookieJar" where
  "upsert n v [] = [(n, v)]"
| "upsert n v ((k, x) # jar) = (if k = n then (k, v) # jar else (k, x) # upsert n v jar)"

text \<open>
  Modelled from the spec: one step of the missing \<open>CookieJar.setCookies\<close>, for one raw
  \<open>Set-Cookie\<close> line: the leading \<open>name=value\<close> token, up to the first semicolon, is
  upserted; a token with no \<open>=\<close> is skipped.
\<close>

definition CookieJar_ingest :: "CookieJar \<Rightarrow> string \<Rightarrow> CookieJar" where
  "CookieJar_ingest jar line =
     (let token = takeWhile (\<lambda>c. c \<noteq> CHR '';'') line
      in if CHR ''='' \<notin> set token then jar
         else upsert (takeWhile (\<lambda>c. c \<noteq> CHR ''='') token)
                (tl (dropWhile (\<lambda>c. c \<noteq> CHR ''='') token)) jar)"

text \<open>
  Modelled from the spec: the missing \<open>CookieJar.setCookies\<close> (the spec's \<open>ingest\<close>),
  which consumes a sequence of \<open>Set-Cookie\<close> lines in order.
\<close>

definition CookieJar_setCookies :: "CookieJar \<Rightarrow> string list \<Rightarrow> CookieJar" where
  "CookieJar_setCookies jar setCookieValues =
     fold (\<lambda>line j. CookieJar_ingest j line) setCookieValues jar"

text \<open>
  Modelled from the spec: the missing \<open>CookieJar.getCookieHeader\<close> (the spec's
  \<open>header\<close>): the stored cookies as \<open>name=value\<close> pairs joined by a semicolon and a
  space, in insertion order; the empty string when nothing is stored.
\<close>

definition CookieJar_getCookieHeader :: "CookieJar \<Rightarrow> string" where
  "CookieJar_getCookieHeader jar = join ''; '' (map (\<lambda>(n, v). n @ ''='' @ v) jar)"

section \<open>Request client (src/utils/http/http-client.ts)\<close>

text \<open>
  \<open>RequestInit\<close> with the members the client passes on; \<open>init_headers\<close> is the list of
  entries of \<open>options.headers\<close>. A \<open>Response\<close> has a status, headers and a body. A
  \<open>FetchCall\<close> records one invocation of the transport \<open>fetch(url, {...options, headers})\<close>.
  What \<open>fetch\<close> throws is an \<open>Error\<close> with its message, or some other value.
\<close>

record RequestInit =
  init_method :: "string option"
  init_headers :: "(string \<times> string) list option"
  init_body :: "string option"

record Response =
  status :: nat
  response_headers :: Headers
  response_body :: string

record FetchCall =
  fetch_url :: string
  fetch_method :: "string option"
  fetch_headers :: Headers
  fetch_body :: "string option"

datatype Thrown = Error string | NonError

record HttpClient =
  cookieJar :: CookieJar
  defaultHeaders :: "(string \<times> string) list"

text \<open>
  \<open>entries.forEach(([key, value]) => headers.set(key, value))\<close>: the first \<open>set\<close>
  that throws ends the loop.
\<close>

fun set_all :: "(string \<times> string) list \<Rightarrow> Headers \<Rightarrow> Exception + Headers" where
  "set_all [] h = Inr h"
| "set_all ((key, val) # entries) h =
     (case Headers_set h key val of
        Inl e \<Rightarrow> Inl e
      | Inr h' \<Rightarrow> set_all entries h')"

text \<open>
  The three numbered steps of \<open>request\<close>: the default headers, then the headers of
  \<open>options\<close> (through a \<open>Headers\<close> object of their own), then the custom headers.
  Each step can throw the TypeError of the platform.
\<close>

definition request_layers ::
  "(string \<times> string) list \<Rightarrow> (string \<times> string) list option \<Rightarrow>
   (string \<times> string) list option \<Rightarrow> Exception + Headers" where
  "request_layers dflt optionHeaders customHeaders =
     (case set_all dflt [] of
        Inl e \<Rightarrow> Inl e
      | Inr headers1 \<Rightarrow>
          (case (case optionHeaders of
                   None \<Rightarrow> Inr headers1
                 | Some init \<Rightarrow>
                     (case Headers_new init of
                        Inl e \<Rightarrow> Inl e
                      | Inr optionHeaders' \<Rightarrow> set_all (Headers_entries optionHeaders') headers1)) of
             Inl e \<Rightarrow> Inl e
           | Inr headers2 \<Rightarrow>
               (case customHeaders of
                  None \<Rightarrow> Inr headers2
                | Some custom \<Rightarrow> set_all custom headers2)))"

text \<open>
  The headers handed to \<open>fetch\<close>: the three layers, then the cookie of the jar
  (\<open>if (cookieHeader) headers.set("Cookie", cookieHeader)\<close>).
\<close>

definition request_headers ::
  "HttpClient \<Rightarrow> RequestInit \<Rightarrow> (string \<times> string) list option \<Rightarrow> Exception + Headers" where
  "request_headers client options customHeaders =
     (case request_layers (defaultHeaders client) (init_headers options) customHeaders of
        Inl e \<Rightarrow> Inl e
      | Inr headers \<Rightarrow>
          (let cookieHeader = CookieJar_getCookieHeader (cookieJar client)
           in if cookieHeader \<noteq> [] then Headers_set headers ''Cookie'' cookieHeader
              else Inr headers))"

text \<open>
  How the promise of \<open>request\<close> settles: it resolves to a result, an error or a
  response, or it rejects with an exception that \<open>request\<close> did not catch.
\<close>

datatype Settled = Rejected Exception | Resolved "AppError + Response"

text \<open>
  \<open>HttpClient.request\<close>. The transport \<open>fetch\<close> is a parameter: it answers a call with
  a response (\<open>Inr\<close>) or throws (\<open>Inl\<close>). The headers are built before the \<open>try\<close>
  block, so a TypeError of theirs rejects the promise with no call of the transport. The
  result is how the promise settles, the client after the call, and the calls of the
  transport made, in order.
\<close>

definition request ::
  "(string \<Rightarrow> URL option) \<Rightarrow> (FetchCall \<Rightarrow> Thrown + Response) \<Rightarrow> HttpClient \<Rightarrow>
   string \<Rightarrow> RequestInit \<Rightarrow> (string \<times> string) list option \<Rightarrow>
   Settled \<times> HttpClient \<times> FetchCall list" where
  "request newURL fetch client url options customHeaders =
     (case validateUrl newURL url of
        Inl e \<Rightarrow> (Resolved (Inl e), client, [])
      | Inr guarded \<Rightarrow>
          (case request_headers client options customHeaders of
             Inl exn \<Rightarrow> (Rejected exn, client, [])
           | Inr headers \<Rightarrow>
               (let call = \<lparr>fetch_url = url, fetch_method = init_method options,
                             fetch_headers = headers, fetch_body = init_body options\<rparr>
                in case fetch call of
                     Inr res \<Rightarrow>
                       (let setCookies = Headers_getSetCookie (response_headers res)
                        in (Resolved (Inr res),
                            (if 0 < length setCookies
                             then client\<lparr>cookieJar :=
                                    CookieJar_setCookies (cookieJar client) setCookies\<rparr>
                             else client),
                            [call]))
                   | Inl error \<Rightarrow>
                       (let message =
                              (case error of Error m \<Rightarrow> m | NonError \<Rightarrow> ''Network request failed'')
                        in (Resolved (Inl (InternalServerError message)), client, [call])))))"

section \<open>Notions of the specification\<close>

text \<open>
  The mapping a layer of header entries stands for: names without case, values
  stripped, the last entry of a name wins. An absent layer is the empty mapping.
\<close>

definition layer :: "(string \<times> string) list \<Rightarrow> (string \<rightharpoonup> string)" where
  "layer entries = map_of (rev (map (\<lambda>(k, v). (toLowerCase k, normalize_value v)) entries))"

definition layer_of :: "(string \<times> string) list option \<Rightarrow> (string \<rightharpoonup> string)" where
  "layer_of entries = (case entries of None \<Rightarrow> Map.empty | Some es \<Rightarrow> layer es)"

text \<open>
  The entries of a layer are valid when no \<open>set\<close> or \<open>append\<close> of them throws: every
  name is a token and every stripped value a header value. An absent layer is valid.
  \<open>no_control\<close> is the part of a header value that stripping does not ensure.
\<close>

definition no_control :: "string \<Rightarrow> bool" where
  "no_control v = list_all (\<lambda>c. c \<notin> set [CHR 0x00, CHR 0x0A, CHR 0x0D]) v"

definition valid_entries :: "(string \<times> string) list \<Rightarrow> bool" where
  "valid_entries entries =
     list_all (\<lambda>(k, v). valid_header_name k \<and> valid_header_value (normalize_value v)) entries"

definition valid_layer :: "(string \<times> string) list option \<Rightarrow> bool" where
  "valid_layer entries = (case entries of None \<Rightarrow> True | Some es \<Rightarrow> valid_entries es)"

text \<open>
  The loop of \<open>set\<close> over the entries of a layer when no entry is refused: the "set" of
  the header list under each name in lower case, with the stripped value.
\<close>

definition set_each :: "(string \<times> string) list \<Rightarrow> Headers \<Rightarrow> Headers" where
  "set_each entries h =
     fold (\<lambda>(k, v). header_list_set (toLowerCase k) (normalize_value v)) entries h"

text \<open>The header list that \<open>new Headers(init)\<close> holds when no entry is refused.\<close>

definition header_list_of :: "(string \<times> string) list \<Rightarrow> Headers" where
  "header_list_of init = map (\<lambda>(k, v). (toLowerCase k, normalize_value v)) init"

text \<open>
  What is read under a name in headers under construction: the exception thrown, or the
  value of \<open>get\<close>.
\<close>

definition read_header :: "Exception + Headers \<Rightarrow> string \<Rightarrow> Exception + string option" where
  "read_header r name = (case r of Inl e \<Rightarrow> Inl e | Inr h \<Rightarrow> Inr (Headers_get h name))"

text \<open>
  The value of the three layers under a name: the custom headers over the entries of the
  \<open>Headers\<close> object of the option headers over the default headers.
\<close>

definition layered ::
  "(string \<times> string) list \<Rightarrow> (string \<times> string) list option \<Rightarrow>
   (string \<times> string) list option \<Rightarrow> string \<Rightarrow> string option" where
  "layered dflt optionHeaders customHeaders name =
     (layer dflt ++
      layer_of (map_option (\<lambda>init. Headers_entries (header_list_of init)) optionHeaders) ++
      layer_of customHeaders) (toLowerCase name)"

text \<open>
  The textual prefixes of the private ranges: \<open>10.\<close>, \<open>127.\<close>, \<open>0.\<close>, \<open>192.168.\<close>,
  \<open>169.254.\<close>, and \<open>172.\<close> followed by a second label from 16 to 31 and its dot.
\<close>

definition begins_with :: "string \<Rightarrow> string \<Rightarrow> bool" where
  "begins_with p s = (take (length p) s = p)"

definition two_digits :: "nat \<Rightarrow> string" where
  "two_digits n = [''0123456789'' ! (n div 10), ''0123456789'' ! (n mod 10)]"

definition private_prefixes :: "string list" where
  "private_prefixes =
     [''10.'', ''127.'', ''0.'', ''192.168.'', ''169.254.''] @
     map (\<lambda>n. ''172.'' @ two_digits n @ ''.'')
       [16, 17, 18, 19, 20, 21, 22, 23, 24, 25, 26, 27, 28, 29, 30, 31]"

definition private_prefix :: "string \<Rightarrow> bool" where
  "private_prefix h = list_ex (\<lambda>p. begins_with p h) private_prefixes"

text \<open>A client, a request and a response to run the client on.\<close>

definition example_client :: HttpClient where
  "example_client = \<lparr>cookieJar = [(''a'', ''1'')], defaultHeaders = [(''User-Agent'', ''w'')]\<rparr>"

definition example_options :: RequestInit where
  "example_options = \<lparr>init_method = Some ''GET'', init_headers = None, init_body = None\<rparr>"

definition layered_client :: HttpClient where
  "layered_client = \<lparr>cookieJar = [], defaultHeaders = [(''X'', ''1'')]\<rparr>"

definition layered_options :: RequestInit where
  "layered_options =
     \<lparr>init_method = Some ''POST'', init_headers = Some [(''X'', ''2''), (''Y'', ''3'')],
      init_body = None\<rparr>"

definition example_response :: Response where
  "example_response =
     \<lparr>status = 500,
      response_headers = [(''content-type'', ''text/plain''), (''set-cookie'', ''s=1; HttpOnly''),
                          (''Set-Cookie'', ''t=2'')],
      response_body = ''down''\<rparr>"

section \<open>Properties of the comparison\<close>

lemma xor_zero_iff: "(x XOR y = 0) \<longleftrightarrow> x = y" for x y :: "32 word"
proof
  assume "x XOR y = 0"
  then have "(x XOR y) XOR y = y" by simp
  then show "x = y" by (simp add: xor.assoc)
next
  assume "x = y" then show "x XOR y = 0" by simp
qed

lemma ucast_unit_inj: "(ucast x :: 32 word) = ucast y \<longleftrightarrow> x = y" for x y :: "16 word"
proof
  assume eq: "(ucast x :: 32 word) = ucast y"
  have up: "is_up (ucast :: 16 word \<Rightarrow> 32 word)" by (simp add: is_up)
  have "x = ucast (ucast x :: 32 word)" by (simp add: ucast_up_ucast_id [OF up])
  also have "\<dots> = ucast (ucast y :: 32 word)" by (simp only: eq)
  also have "\<dots> = y" by (simp add: ucast_up_ucast_id [OF up])
  finally show "x = y" .
qed simp

lemma length_inj:
  "n < 2 ^ 32 \<Longrightarrow> m < 2 ^ 32 \<Longrightarrow> (word_of_nat n :: 32 word) = word_of_nat m \<longleftrightarrow> n = m"
  by (simp add: word_of_nat_eq_iff take_bit_nat_eq_self)

lemma loop_iters: "snd (timingSafeEqual_loop a b m i r n) = n + (m - i)"
proof (induction a b m i r n rule: timingSafeEqual_loop.induct)
  case (1 a b maxLen i result iters)
  show ?case
  proof (cases "i < maxLen")
    case True
    with 1 show ?thesis
      by (subst timingSafeEqual_loop.simps) (simp add: Let_def)
  next
    case False
    then show ?thesis by (subst timingSafeEqual_loop.simps) simp
  qed
qed

lemma loop_zero:
  "fst (timingSafeEqual_loop a b m i r n) = 0 \<longleftrightarrow>
     r = 0 \<and> (\<forall>k. i \<le> k \<and> k < m \<longrightarrow> unit_at a k = unit_at b k)"
proof (induction a b m i r n rule: timingSafeEqual_loop.induct)
  case (1 a b maxLen i result iters)
  show ?case
  proof (cases "i < maxLen")
    case True
    have range: "(\<forall>k. i \<le> k \<and> k < maxLen \<longrightarrow> P k) \<longleftrightarrow>
        P i \<and> (\<forall>k. i + 1 \<le> k \<and> k < maxLen \<longrightarrow> P k)" for P
    proof
      assume h: "\<forall>k. i \<le> k \<and> k < maxLen \<longrightarrow> P k"
      show "P i \<and> (\<forall>k. i + 1 \<le> k \<and> k < maxLen \<longrightarrow> P k)"
        using h True by simp
    next
      assume h: "P i \<and> (\<forall>k. i + 1 \<le> k \<and> k < maxLen \<longrightarrow> P k)"
      show "\<forall>k. i \<le> k \<and> k < maxLen \<longrightarrow> P k"
      proof (intro allI impI)
        fix k assume "i \<le> k \<and> k < maxLen"
        then show "P k" using h by (cases "k = i") auto
      qed
    qed
    have "fst (timingSafeEqual_loop a b maxLen i result iters) =
          fst (timingSafeEqual_loop a b maxLen (i + 1)
                 (result OR (unit_at a i XOR unit_at b i)) (iters + 1))"
      using True by (subst timingSafeEqual_loop.simps) (simp add: Let_def unit_at_def)
    also have "\<dots> = 0 \<longleftrightarrow> (result OR (unit_at a i XOR unit_at b i)) = 0 \<and>
        (\<forall>k. i + 1 \<le> k \<and> k < maxLen \<longrightarrow> unit_at a k = unit_at b k)"
      using 1 [OF True refl refl] by (simp add: unit_at_def)
    also have "\<dots> \<longleftrightarrow> result = 0 \<and> (\<forall>k. i \<le> k \<and> k < maxLen \<longrightarrow> unit_at a k = unit_at b k)"
      by (subst range [of "\<lambda>k. unit_at a k = unit_at b k"]) (simp add: or_eq_0_iff xor_zero_iff)
    finally show ?thesis .
  next
    case False
    then have "timingSafeEqual_loop a b maxLen i result iters = (result, iters)"
      by (subst timingSafeEqual_loop.simps) simp
    with False show ?thesis by auto
  qed
qed

text \<open>
  Claim C3. For strings \<open>a\<close> and \<open>b\<close>, the empty string included,
  \<open>timingSafeEqual a b\<close> is true exactly when \<open>a\<close> and \<open>b\<close> are the same sequence
  of code units. The function is total: its loop terminates on every input (the
  termination proof above) and no branch of it raises. The lengths are those a JavaScript
  engine can represent, below \<open>2 ^ 32\<close>: the accumulator starts from the 32-bit XOR of the
  two lengths.
\<close>

theorem timingSafeEqual_iff_equal:
  assumes "length a < 2 ^ 32" and "length b < 2 ^ 32"
  shows "timingSafeEqual a b \<longleftrightarrow> a = b"
proof -
  let ?m = "max (length a) (length b)"
  have run: "timingSafeEqual a b \<longleftrightarrow>
      (word_of_nat (length a) :: 32 word) XOR word_of_nat (length b) = 0 \<and>
      (\<forall>k. 0 \<le> k \<and> k < ?m \<longrightarrow> unit_at a k = unit_at b k)"
    by (simp only: timingSafeEqual_def timingSafeEqual_run_def Let_def loop_zero)
  show ?thesis
  proof
    assume "timingSafeEqual a b"
    with run have len: "length a = length b"
      and units: "\<forall>k. k < ?m \<longrightarrow> unit_at a k = unit_at b k"
      using assms by (simp_all add: xor_zero_iff length_inj)
    have "a ! k = b ! k" if "k < length a" for k
      using units that len by (simp add: unit_at_def ucast_unit_inj)
    with len show "a = b" by (simp add: list_eq_iff_nth_eq)
  next
    assume "a = b"
    with run show "timingSafeEqual a b" by simp
  qed
qed

theorem timingSafeEqual_iff_equal_witness:
  "length (code_units ''abc'') < 2 ^ 32 \<and> length (code_units ''abd'') < 2 ^ 32 \<and>
   length ([] :: jsstring) < 2 ^ 32 \<and>
   \<not> timingSafeEqual (code_units ''abc'') (code_units ''abd'') \<and>
   \<not> timingSafeEqual (code_units ''abc'') [] \<and>
   timingSafeEqual (code_units ''abc'') (code_units ''abc'') \<and>
   timingSafeEqual [] []"
proof -
  have l: "length (code_units ''abc'') < 2 ^ 32" "length (code_units ''abd'') < 2 ^ 32"
    "length ([] :: jsstring) < 2 ^ 32"
    by (simp_all add: code_units_def)
  have ne: "code_units ''abc'' \<noteq> code_units ''abd''" "code_units ''abc'' \<noteq> []"
    by (simp_all add: code_units_def)
  show ?thesis
    using l ne
      timingSafeEqual_iff_equal [OF l(1) l(2)]
      timingSafeEqual_iff_equal [OF l(1) l(3)]
      timingSafeEqual_iff_equal [OF l(1) l(1)]
      timingSafeEqual_iff_equal [OF l(3) l(3)]
    by simp
qed

text \<open>
  Claim C4. The loop of \<open>timingSafeEqual\<close> runs its body exactly
  \<open>max (length a) (length b)\<close> times: the count is a function of that maximum alone,
  whatever the code units are and wherever they first differ. Started from any index, with
  any accumulator, the loop runs the remaining \<open>maxLen - i\<close> bodies, so no exit depends on
  the accumulator. On \<open>("abc", "abd")\<close> and on \<open>("aaa", "zaa")\<close> it runs 3 times.
\<close>

theorem timingSafeEqual_iteration_count:
  "timingSafeEqual_iterations a b = max (length a) (length b) \<and>
   snd (timingSafeEqual_loop a b maxLen i result iters) = iters + (maxLen - i) \<and>
   timingSafeEqual_iterations (code_units ''abc'') (code_units ''abd'') = 3 \<and>
   timingSafeEqual_iterations (code_units ''aaa'') (code_units ''zaa'') = 3"
  by (simp add: timingSafeEqual_iterations_def timingSafeEqual_run_def loop_iters code_units_def)


section \<open>Properties of the URL guard\<close>

text \<open>
  Claim C1. The guard on the twelve URLs of the specification's lists. Eight of the ten
  URLs of the rejection list are rejected, each with a \<open>BadRequestError\<close>, and the two
  URLs of the acceptance list are accepted with the parsed URL. The two URLs
  \<open>http://[fe80::1]/\<close> and \<open>http://[fc00::1]/\<close> of the rejection list are accepted:
  \<open>hostname\<close> is \<open>[fe80::1]\<close>, with the brackets, and the patterns \<open>/^fe80:/i\<close> and
  \<open>/^fc[0-9a-f]{2}:/i\<close> match at the start of the text only.
\<close>

theorem validateUrl_examples:
  "validateUrl new_URL ''ftp://example.com'' = Inl (BadRequestError ''Blocked protocol: ftp:'') \<and>
   validateUrl new_URL ''http://localhost/'' = Inl (BadRequestError ''Blocked hostname: localhost'') \<and>
   validateUrl new_URL ''http://127.0.0.1/'' = Inl (BadRequestError ''Blocked: private IP address'') \<and>
   validateUrl new_URL ''http://10.1.2.3/'' = Inl (BadRequestError ''Blocked: private IP address'') \<and>
   validateUrl new_URL ''http://172.20.0.5/'' = Inl (BadRequestError ''Blocked: private IP address'') \<and>
   validateUrl new_URL ''http://192.168.1.1/'' = Inl (BadRequestError ''Blocked: private IP address'') \<and>
   validateUrl new_URL ''http://169.254.1.1/'' = Inl (BadRequestError ''Blocked: private IP address'') \<and>
   validateUrl new_URL ''http://[::1]/'' = Inl (BadRequestError ''Blocked: private IPv6 address'') \<and>
   validateUrl new_URL ''http://[fe80::1]/'' =
     Inr \<lparr>protocol = ''http:'', hostname = ''[fe80::1]'', port = None\<rparr> \<and>
   validateUrl new_URL ''http://[fc00::1]/'' =
     Inr \<lparr>protocol = ''http:'', hostname = ''[fc00::1]'', port = None\<rparr> \<and>
   validateUrl new_URL ''https://example.com/path'' =
     Inr \<lparr>protocol = ''https:'', hostname = ''example.com'', port = None\<rparr> \<and>
   validateUrl new_URL ''http://8.8.8.8/'' =
     Inr \<lparr>protocol = ''http:'', hostname = ''8.8.8.8'', port = None\<rparr>"
  by (intro conjI; code_simp)

lemma validateUrl_error:
  "validateUrl newURL url = Inl e \<Longrightarrow> \<exists>m. e = BadRequestError m"
  by (auto simp: validateUrl_def Let_def split: option.splits if_splits)

lemma private_prefixes_eval:
  "private_prefixes =
     [''10.'', ''127.'', ''0.'', ''192.168.'', ''169.254.'',
      ''172.16.'', ''172.17.'', ''172.18.'', ''172.19.'', ''172.20.'', ''172.21.'', ''172.22.'',
      ''172.23.'', ''172.24.'', ''172.25.'', ''172.26.'', ''172.27.'', ''172.28.'', ''172.29.'',
      ''172.30.'', ''172.31.'']"
  by (simp add: private_prefixes_def two_digits_def)

lemma lower_fixed:
  assumes "c \<notin> set ''ABCDEFGHIJKLMNOPQRSTUVWXYZ''"
  shows "toLowerCase_char c = c"
proof -
  have "map_of (zip ''ABCDEFGHIJKLMNOPQRSTUVWXYZ'' ''abcdefghijklmnopqrstuvwxyz'') c = None"
    using assms by (subst map_of_zip_is_None) simp_all
  then show ?thesis by (simp only: toLowerCase_char_def option.case)
qed

lemma lower_digit: "c \<in> set ''0123456789.'' \<Longrightarrow> toLowerCase_char c = c"
  by (rule lower_fixed) auto

lemma lower_prefix:
  "list_all (\<lambda>c. c \<in> set ''0123456789.'') p \<Longrightarrow> toLowerCase (p @ r) = p @ toLowerCase r"
  by (induction p) (simp_all add: toLowerCase_def lower_digit del: set_simps)

lemma private_prefixes_digits:
  "list_all (list_all (\<lambda>c. c \<in> set ''0123456789.'')) private_prefixes"
  by (simp add: private_prefixes_eval)

lemma private_prefixes_match:
  "list_all (\<lambda>p. \<forall>r. list_ex (\<lambda>pattern. RegExp_test pattern (p @ r)) PRIVATE_IP_PATTERNS)
     private_prefixes"
  by (simp add: private_prefixes_eval PRIVATE_IP_PATTERNS_def RegExp_test_def lit_def digits_def)

lemma private_prefixes_hit:
  assumes "p \<in> set private_prefixes"
  shows "list_ex (\<lambda>pattern. RegExp_test pattern (toLowerCase (p @ r))) PRIVATE_IP_PATTERNS"
proof -
  from assms have "list_all (\<lambda>c. c \<in> set ''0123456789.'') p"
    using private_prefixes_digits by (simp add: list_all_iff)
  then have "toLowerCase (p @ r) = p @ toLowerCase r" by (rule lower_prefix)
  moreover from assms
  have "list_ex (\<lambda>pattern. RegExp_test pattern (p @ toLowerCase r)) PRIVATE_IP_PATTERNS"
    using private_prefixes_match by (simp add: list_all_iff)
  ultimately show ?thesis by simp
qed

lemma private_prefix_hit:
  assumes "private_prefix h"
  shows "list_ex (\<lambda>pattern. RegExp_test pattern (toLowerCase h)) PRIVATE_IP_PATTERNS"
proof -
  from assms obtain p where p: "p \<in> set private_prefixes" and b: "begins_with p h"
    by (auto simp: private_prefix_def list_ex_iff)
  from b have "h = p @ drop (length p) h"
    by (metis append_take_drop_id begins_with_def)
  with private_prefixes_hit [OF p, of "drop (length p) h"] show ?thesis by simp
qed

text \<open>
  Claim C10. The private-range check of the guard is a test on the text of the host
  name. The URLs \<open>http://10.example.com/\<close> and \<open>http://172.20.downloads.example.com/\<close>,
  whose hosts are domain names, are rejected with "Blocked: private IP address". For
  every URL parser: a URL with scheme http or https whose host name begins with \<open>10.\<close>,
  \<open>127.\<close>, \<open>0.\<close>, \<open>192.168.\<close>, \<open>169.254.\<close>, or \<open>172.\<close> and a second label from 16 to
  31 with its dot (\<open>172.16.\<close> to \<open>172.31.\<close>), is rejected, with that message (with
  "Blocked hostname: localhost" for the host \<open>0.0.0.0\<close>, which the list of blocked host
  names catches first).
\<close>

theorem private_prefix_rejected:
  "validateUrl new_URL ''http://10.example.com/'' =
     Inl (BadRequestError ''Blocked: private IP address'') \<and>
   validateUrl new_URL ''http://172.20.downloads.example.com/'' =
     Inl (BadRequestError ''Blocked: private IP address'') \<and>
   (newURL s = Some u \<and> (protocol u = ''http:'' \<or> protocol u = ''https:'') \<and>
    private_prefix (hostname u) \<longrightarrow>
    validateUrl newURL s =
      Inl (BadRequestError
            (if toLowerCase (hostname u) \<in> set BLOCKED_HOSTNAMES
             then ''Blocked hostname: localhost'' else ''Blocked: private IP address'')))"
proof (intro conjI impI)
  show "validateUrl new_URL ''http://10.example.com/'' =
     Inl (BadRequestError ''Blocked: private IP address'')"
    by code_simp
  show "validateUrl new_URL ''http://172.20.downloads.example.com/'' =
     Inl (BadRequestError ''Blocked: private IP address'')"
    by code_simp
next
  assume h: "newURL s = Some u \<and> (protocol u = ''http:'' \<or> protocol u = ''https:'') \<and>
    private_prefix (hostname u)"
  then have "list_ex (\<lambda>pattern. RegExp_test pattern (toLowerCase (hostname u))) PRIVATE_IP_PATTERNS"
    using private_prefix_hit by blast
  with h show "validateUrl newURL s =
      Inl (BadRequestError
            (if toLowerCase (hostname u) \<in> set BLOCKED_HOSTNAMES
             then ''Blocked hostname: localhost'' else ''Blocked: private IP address''))"
    by (auto simp: validateUrl_def Let_def)
qed

theorem private_prefix_rejected_witness:
  "new_URL ''https://192.168.example.org/x'' =
     Some \<lparr>protocol = ''https:'', hostname = ''192.168.example.org'', port = None\<rparr> \<and>
   private_prefix ''192.168.example.org'' \<and>
   validateUrl new_URL ''https://192.168.example.org/x'' =
     Inl (BadRequestError ''Blocked: private IP address'')"
proof -
  have p: "new_URL ''https://192.168.example.org/x'' =
     Some \<lparr>protocol = ''https:'', hostname = ''192.168.example.org'', port = None\<rparr>"
    by code_simp
  have q: "private_prefix ''192.168.example.org''"
    by (simp add: private_prefix_def private_prefixes_eval begins_with_def)
  have r: "toLowerCase ''192.168.example.org'' \<notin> set BLOCKED_HOSTNAMES"
    by code_simp
  show ?thesis
    using p q r
      private_prefix_rejected [of new_URL "''https://192.168.example.org/x''"
        "\<lparr>protocol = ''https:'', hostname = ''192.168.example.org'', port = None\<rparr>"]
    by simp
qed

section \<open>Properties of the header layers\<close>

lemma values_Nil: "Headers_values [] m = []"
  by (simp add: Headers_values_def)

lemma values_Cons:
  "Headers_values ((k, x) # h) m = (if k = m then x # Headers_values h m else Headers_values h m)"
  by (simp add: Headers_values_def)

lemma values_append:
  "Headers_values (h @ g) m = Headers_values h m @ Headers_values g m"
  by (simp add: Headers_values_def)

lemma values_filter_other:
  "Headers_values (filter (\<lambda>(k', x'). k' \<noteq> n) h) m = (if m = n then [] else Headers_values h m)"
  by (induction h) (auto simp: values_Nil values_Cons)

lemma values_set_first:
  "Headers_values (set_first n v h) m =
     (if m = n then (if n \<in> set (map fst h) then [v] else []) else Headers_values h m)"
  by (induction h) (force simp: values_Nil values_Cons values_filter_other)+

lemma values_absent: "n \<notin> set (map fst h) \<Longrightarrow> Headers_values h n = []"
  by (induction h) (auto simp: values_Nil values_Cons)

lemma values_subset: "set (Headers_values h n) \<subseteq> snd ` set h"
  by (auto simp: Headers_values_def)

text \<open>What \<open>get\<close> reads after the "set" of the header list.\<close>

lemma get_list_set:
  "Headers_get (header_list_set (toLowerCase k) v h) n =
     (if toLowerCase n = toLowerCase k then Some v else Headers_get h n)"
proof (cases "toLowerCase k \<in> set (map fst h)")
  case True
  then show ?thesis
    by (simp add: Headers_get_def header_list_set_def Let_def values_set_first)
next
  case False
  then show ?thesis
    using values_absent [OF False]
    by (simp add: Headers_get_def header_list_set_def Let_def values_append values_Cons values_Nil)
qed

lemma set_all_eq:
  "set_all es h = (if valid_entries es then Inr (set_each es h) else Inl TypeError)"
proof (induction es arbitrary: h)
  case Nil
  show ?case by (simp add: valid_entries_def set_each_def)
next
  case (Cons e es)
  obtain k v where e: "e = (k, v)" by (cases e)
  show ?case
    by (simp add: e Cons.IH Headers_set_def Let_def valid_entries_def set_each_def)
qed

lemma get_set_each:
  "Headers_get (set_each es h) n =
     (case layer es (toLowerCase n) of Some v \<Rightarrow> Some v | None \<Rightarrow> Headers_get h n)"
proof (induction es arbitrary: h)
  case Nil
  then show ?case by (simp add: set_each_def layer_def)
next
  case (Cons e es)
  obtain k v where e: "e = (k, v)" by (cases e)
  have step: "set_each (e # es) h =
      set_each es (header_list_set (toLowerCase k) (normalize_value v) h)"
    by (simp add: set_each_def e)
  show ?case
    unfolding step Cons.IH get_list_set
    by (simp add: layer_def e map_add_def split: option.split)
qed

lemma append_all_eq:
  "append_all es h = (if valid_entries es then Inr (h @ header_list_of es) else Inl TypeError)"
proof (induction es arbitrary: h)
  case Nil
  show ?case by (simp add: valid_entries_def header_list_of_def)
next
  case (Cons e es)
  obtain k v where e: "e = (k, v)" by (cases e)
  show ?case
    by (simp add: e Cons.IH Headers_append_def Let_def valid_entries_def header_list_of_def)
qed

lemma lower_cases:
  "toLowerCase_char c = c \<or> toLowerCase_char c \<in> set ''abcdefghijklmnopqrstuvwxyz''"
proof (cases "map_of (zip ''ABCDEFGHIJKLMNOPQRSTUVWXYZ'' ''abcdefghijklmnopqrstuvwxyz'') c")
  case None
  then show ?thesis by (simp only: toLowerCase_char_def option.case) simp
next
  case (Some l)
  then have "(c, l) \<in> set (zip ''ABCDEFGHIJKLMNOPQRSTUVWXYZ'' ''abcdefghijklmnopqrstuvwxyz'')"
    by (rule map_of_SomeD)
  then have "l \<in> set ''abcdefghijklmnopqrstuvwxyz''" by (rule set_zip_rightD)
  moreover have "toLowerCase_char c = l"
    using Some by (simp only: toLowerCase_char_def option.case)
  ultimately show ?thesis by simp
qed

lemma small_letters_tchar: "list_all is_tchar ''abcdefghijklmnopqrstuvwxyz''"
  by (simp add: is_tchar_def is_alpha_def)

lemma tchar_lower: "is_tchar c \<Longrightarrow> is_tchar (toLowerCase_char c)"
  using lower_cases [of c] small_letters_tchar by (auto simp: list_all_iff)

lemma valid_name_lower: "valid_header_name n \<Longrightarrow> valid_header_name (toLowerCase n)"
  by (simp add: valid_header_name_def toLowerCase_def list_all_iff tchar_lower)

lemma last_dropWhile_eq: "dropWhile P xs \<noteq> [] \<Longrightarrow> last (dropWhile P xs) = last xs"
  by (metis last_appendR takeWhile_dropWhile_id)

text \<open>A stripped value has no white space at either end.\<close>

lemma normalize_ends:
  assumes "normalize_value v \<noteq> []"
  shows "\<not> is_http_whitespace (hd (normalize_value v)) \<and>
         \<not> is_http_whitespace (last (normalize_value v))"
proof -
  let ?u = "dropWhile is_http_whitespace v"
  let ?t = "dropWhile is_http_whitespace (rev ?u)"
  from assms have t: "?t \<noteq> []" by (simp add: normalize_value_def)
  have u: "?u \<noteq> []"
  proof
    assume "?u = []"
    then have "?t = dropWhile is_http_whitespace (rev [])" by (simp only:)
    with t show False by simp
  qed
  have "last (normalize_value v) = hd ?t"
    using t by (simp add: normalize_value_def last_rev)
  moreover have "\<not> is_http_whitespace (hd ?t)" using t by (rule hd_dropWhile)
  moreover have "hd (normalize_value v) = last ?t"
    using t by (simp add: normalize_value_def hd_rev)
  moreover have "last ?t = last (rev ?u)" using t by (rule last_dropWhile_eq)
  moreover have "last (rev ?u) = hd ?u" using u by (simp add: last_rev)
  moreover have "\<not> is_http_whitespace (hd ?u)" using u by (rule hd_dropWhile)
  ultimately show ?thesis by simp
qed

lemma valid_normalized:
  "valid_header_value (normalize_value v) \<longleftrightarrow> no_control (normalize_value v)"
  using normalize_ends [of v]
  by (auto simp: valid_header_value_def no_control_def is_http_whitespace_def)

lemma valid_no_control: "valid_header_value v \<Longrightarrow> no_control v"
  by (simp add: valid_header_value_def no_control_def)

lemma set_normalize: "set (normalize_value v) \<subseteq> set v"
proof -
  have "set (normalize_value v) \<subseteq> set (dropWhile is_http_whitespace v)"
    unfolding normalize_value_def using set_dropWhileD by fastforce
  also have "\<dots> \<subseteq> set v" using set_dropWhileD by fastforce
  finally show ?thesis .
qed

lemma no_control_normalize: "no_control v \<Longrightarrow> valid_header_value (normalize_value v)"
  unfolding valid_normalized using set_normalize [of v]
  by (auto simp: no_control_def list_all_iff)

lemma no_control_join:
  "\<forall>v \<in> set vs. no_control v \<Longrightarrow> no_control (join '', '' vs)"
  by (induction "'', ''" vs rule: join.induct) (simp_all add: no_control_def)

lemma entries_member:
  assumes "(k, v) \<in> set (Headers_entries h)"
  shows "k \<in> fst ` set h \<and>
         (v \<in> set (Headers_values h k) \<or> v = join '', '' (Headers_values h k))"
  using assms by (auto simp: Headers_entries_def split: if_splits)

lemma valid_entries_iff:
  "valid_entries es \<longleftrightarrow>
     (\<forall>(k, v) \<in> set es. valid_header_name k \<and> valid_header_value (normalize_value v))"
  by (simp add: valid_entries_def list_all_iff)

lemma header_list_valid:
  assumes "valid_entries init" and "(k, v) \<in> set (header_list_of init)"
  shows "valid_header_name k \<and> valid_header_value v"
  using assms by (auto simp: valid_entries_iff header_list_of_def valid_name_lower)

lemma entries_valid:
  assumes "valid_entries init"
  shows "valid_entries (Headers_entries (header_list_of init))"
  unfolding valid_entries_iff
proof (intro ballI, clarify)
  fix k v assume kv: "(k, v) \<in> set (Headers_entries (header_list_of init))"
  let ?h = "header_list_of init"
  from entries_member [OF kv]
  have k: "k \<in> fst ` set ?h"
    and v: "v \<in> set (Headers_values ?h k) \<or> v = join '', '' (Headers_values ?h k)"
    by simp_all
  from k obtain x where "(k, x) \<in> set ?h" by auto
  with header_list_valid [OF assms] have name: "valid_header_name k" by blast
  have vals: "\<forall>w \<in> set (Headers_values ?h k). no_control w"
  proof
    fix w assume "w \<in> set (Headers_values ?h k)"
    then obtain k' where "(k', w) \<in> set ?h" using values_subset [of ?h k] by auto
    with header_list_valid [OF assms] show "no_control w" by (blast intro: valid_no_control)
  qed
  from v have "no_control v"
  proof
    assume "v \<in> set (Headers_values ?h k)" with vals show ?thesis by blast
  next
    assume "v = join '', '' (Headers_values ?h k)"
    with no_control_join [OF vals] show ?thesis by simp
  qed
  then have "valid_header_value (normalize_value v)" by (rule no_control_normalize)
  with name show "valid_header_name k \<and> valid_header_value (normalize_value v)" by simp
qed

lemma exception_eq: "(e :: Exception) = TypeError"
  by (cases e) simp

lemma read_layers:
  "read_header (request_layers dflt optionHeaders customHeaders) name =
     (if valid_entries dflt \<and> valid_layer optionHeaders \<and> valid_layer customHeaders
      then Inr (layered dflt optionHeaders customHeaders name)
      else Inl TypeError)"
proof -
  have empty: "Headers_get [] name = None"
    by (simp add: Headers_get_def values_Nil)
  show ?thesis
    by (cases optionHeaders; cases customHeaders)
       (simp_all add: request_layers_def read_header_def valid_layer_def layered_def layer_of_def
          set_all_eq Headers_new_def append_all_eq entries_valid get_set_each empty map_add_def
          split: option.split)
qed

lemma layers_cases:
  "(\<not> (valid_entries dflt \<and> valid_layer optionHeaders \<and> valid_layer customHeaders) \<and>
      request_layers dflt optionHeaders customHeaders = Inl TypeError) \<or>
   (valid_entries dflt \<and> valid_layer optionHeaders \<and> valid_layer customHeaders \<and>
      (\<exists>h. request_layers dflt optionHeaders customHeaders = Inr h \<and>
           (\<forall>name. Headers_get h name = layered dflt optionHeaders customHeaders name)))"
proof (cases "request_layers dflt optionHeaders customHeaders")
  case (Inl e)
  then show ?thesis
    using read_layers [of dflt optionHeaders customHeaders] exception_eq [of e]
    by (auto simp: read_header_def split: if_splits)
next
  case (Inr h)
  have r: "Inr (Headers_get h name) =
      (if valid_entries dflt \<and> valid_layer optionHeaders \<and> valid_layer customHeaders
       then Inr (layered dflt optionHeaders customHeaders name)
       else (Inl TypeError :: Exception + string option))" for name
    using read_layers [of dflt optionHeaders customHeaders name] Inr
    by (simp add: read_header_def)
  show ?thesis
  proof (cases "valid_entries dflt \<and> valid_layer optionHeaders \<and> valid_layer customHeaders")
    case True
    with r have "Headers_get h name = layered dflt optionHeaders customHeaders name" for name
      by simp
    with True Inr show ?thesis by simp
  next
    case False
    with r [of "[]"] show ?thesis by simp
  qed
qed

lemma cookie_name: "valid_header_name ''Cookie''" "toLowerCase ''Cookie'' = ''cookie''"
  by (simp_all add: valid_header_name_def is_tchar_def is_alpha_def toLowerCase_def
      toLowerCase_char_def)

lemma read_request_headers:
  "read_header (request_headers client options customHeaders) name =
     (if valid_entries (defaultHeaders client) \<and> valid_layer (init_headers options) \<and>
         valid_layer customHeaders
      then
        (if CookieJar_getCookieHeader (cookieJar client) = []
         then Inr (layered (defaultHeaders client) (init_headers options) customHeaders name)
         else if valid_header_value (normalize_value (CookieJar_getCookieHeader (cookieJar client)))
         then Inr (if toLowerCase name = ''cookie''
                   then Some (normalize_value (CookieJar_getCookieHeader (cookieJar client)))
                   else layered (defaultHeaders client) (init_headers options) customHeaders name)
         else Inl TypeError)
      else Inl TypeError)"
  using layers_cases [of "defaultHeaders client" "init_headers options" customHeaders]
    get_list_set [of "''Cookie''"]
  by (auto simp: request_headers_def read_header_def Let_def Headers_set_def cookie_name)

lemma request_calls:
  "snd (snd (request newURL fetch client url options customHeaders)) =
     (case validateUrl newURL url of
        Inl e \<Rightarrow> []
      | Inr guarded \<Rightarrow>
          (case request_headers client options customHeaders of
             Inl exn \<Rightarrow> []
           | Inr headers \<Rightarrow>
               [\<lparr>fetch_url = url, fetch_method = init_method options,
                 fetch_headers = headers, fetch_body = init_body options\<rparr>]))"
  by (simp add: request_def Let_def split: sum.split)

lemma read_cookie:
  "read_header (request_headers client options customHeaders) ''Cookie'' =
     (case request_layers (defaultHeaders client) (init_headers options) customHeaders of
        Inl e \<Rightarrow> Inl e
      | Inr layers \<Rightarrow>
          if CookieJar_getCookieHeader (cookieJar client) \<noteq> []
          then (if valid_header_value (normalize_value (CookieJar_getCookieHeader (cookieJar client)))
                then Inr (Some (normalize_value (CookieJar_getCookieHeader (cookieJar client))))
                else Inl TypeError)
          else Inr (Headers_get layers ''Cookie''))"
  using get_list_set [of "''Cookie''" _ _ "''Cookie''"]
  by (simp add: request_headers_def read_header_def Let_def Headers_set_def cookie_name
      split: sum.split)

lemma layered_example:
  "request_layers [(''X'', ''1'')] (Some [(''X'', ''2''), (''Y'', ''3'')]) (Some [(''X'', ''4'')]) =
     Inr [(''x'', ''4''), (''y'', ''3'')]"
  by code_simp

lemma example_guard:
  "validateUrl new_URL ''https://example.com/path'' =
     Inr \<lparr>protocol = ''https:'', hostname = ''example.com'', port = None\<rparr>"
  by code_simp

lemma layered_headers:
  "request_headers layered_client layered_options (Some [(''X'', ''4'')]) =
     Inr [(''x'', ''4''), (''y'', ''3'')]"
  by code_simp

text \<open>
  Claim C6. The headers built by the three steps of \<open>request\<close> are the three layers
  applied in increasing priority. When every entry is valid, the value read under
  every name is the one of the custom headers if they have the name, else the one of the
  option headers (the entries of their \<open>Headers\<close> object) if they have it, else the one
  of the default headers, else none; when an entry is not valid, the TypeError of the
  platform is thrown. The headers handed to \<open>fetch\<close> read the same under every name,
  but for \<open>Cookie\<close> when the header of the jar is not empty, which is set last. The
  call of the transport carries these headers. With default \<open>{X: "1"}\<close>, option
  \<open>{X: "2", Y: "3"}\<close> and custom \<open>{X: "4"}\<close> the headers handed to \<open>fetch\<close> are
  \<open>x: 4\<close> and \<open>y: 3\<close>: \<open>X\<close> reads 4 and \<open>Y\<close> reads 3.
\<close>

theorem request_layers_precedence:
  "read_header (request_layers dflt optionHeaders customHeaders) name =
     (if valid_entries dflt \<and> valid_layer optionHeaders \<and> valid_layer customHeaders
      then Inr (layered dflt optionHeaders customHeaders name)
      else Inl TypeError) \<and>
   read_header (request_headers client options customHeaders) name =
     (if valid_entries (defaultHeaders client) \<and> valid_layer (init_headers options) \<and>
         valid_layer customHeaders
      then
        (if CookieJar_getCookieHeader (cookieJar client) = []
         then Inr (layered (defaultHeaders client) (init_headers options) customHeaders name)
         else if valid_header_value (normalize_value (CookieJar_getCookieHeader (cookieJar client)))
         then Inr (if toLowerCase name = ''cookie''
                   then Some (normalize_value (CookieJar_getCookieHeader (cookieJar client)))
                   else layered (defaultHeaders client) (init_headers options) customHeaders name)
         else Inl TypeError)
      else Inl TypeError) \<and>
   snd (snd (request newURL fetch client url options customHeaders)) =
     (case validateUrl newURL url of
        Inl e \<Rightarrow> []
      | Inr guarded \<Rightarrow>
          (case request_headers client options customHeaders of
             Inl exn \<Rightarrow> []
           | Inr headers \<Rightarrow>
               [\<lparr>fetch_url = url, fetch_method = init_method options,
                 fetch_headers = headers, fetch_body = init_body options\<rparr>])) \<and>
   request_layers [(''X'', ''1'')] (Some [(''X'', ''2''), (''Y'', ''3'')]) (Some [(''X'', ''4'')]) =
     Inr [(''x'', ''4''), (''y'', ''3'')] \<and>
   read_header
     (request_layers [(''X'', ''1'')] (Some [(''X'', ''2''), (''Y'', ''3'')]) (Some [(''X'', ''4'')]))
     ''X'' = Inr (Some ''4'') \<and>
   read_header
     (request_layers [(''X'', ''1'')] (Some [(''X'', ''2''), (''Y'', ''3'')]) (Some [(''X'', ''4'')]))
     ''Y'' = Inr (Some ''3'') \<and>
   snd (snd (request new_URL fetch layered_client ''https://example.com/path'' layered_options
      (Some [(''X'', ''4'')]))) =
     [\<lparr>fetch_url = ''https://example.com/path'', fetch_method = Some ''POST'',
       fetch_headers = [(''x'', ''4''), (''y'', ''3'')], fetch_body = None\<rparr>]"
proof (intro conjI)
  show "read_header (request_layers dflt optionHeaders customHeaders) name =
     (if valid_entries dflt \<and> valid_layer optionHeaders \<and> valid_layer customHeaders
      then Inr (layered dflt optionHeaders customHeaders name)
      else Inl TypeError)"
    by (rule read_layers)
  show "read_header (request_headers client options customHeaders) name =
     (if valid_entries (defaultHeaders client) \<and> valid_layer (init_headers options) \<and>
         valid_layer customHeaders
      then
        (if CookieJar_getCookieHeader (cookieJar client) = []
         then Inr (layered (defaultHeaders client) (init_headers options) customHeaders name)
         else if valid_header_value (normalize_value (CookieJar_getCookieHeader (cookieJar client)))
         then Inr (if toLowerCase name = ''cookie''
                   then Some (normalize_value (CookieJar_getCookieHeader (cookieJar client)))
                   else layered (defaultHeaders client) (init_headers options) customHeaders name)
         else Inl TypeError)
      else Inl TypeError)"
    by (rule read_request_headers)
  show "snd (snd (request newURL fetch client url options customHeaders)) =
     (case validateUrl newURL url of
        Inl e \<Rightarrow> []
      | Inr guarded \<Rightarrow>
          (case request_headers client options customHeaders of
             Inl exn \<Rightarrow> []
           | Inr headers \<Rightarrow>
               [\<lparr>fetch_url = url, fetch_method = init_method options,
                 fetch_headers = headers, fetch_body = init_body options\<rparr>]))"
    by (rule request_calls)
  show "request_layers [(''X'', ''1'')] (Some [(''X'', ''2''), (''Y'', ''3'')]) (Some [(''X'', ''4'')]) =
     Inr [(''x'', ''4''), (''y'', ''3'')]"
    by (rule layered_example)
  show "read_header
     (request_layers [(''X'', ''1'')] (Some [(''X'', ''2''), (''Y'', ''3'')]) (Some [(''X'', ''4'')]))
     ''X'' = Inr (Some ''4'')"
    unfolding layered_example by code_simp
  show "read_header
     (request_layers [(''X'', ''1'')] (Some [(''X'', ''2''), (''Y'', ''3'')]) (Some [(''X'', ''4'')]))
     ''Y'' = Inr (Some ''3'')"
    unfolding layered_example by code_simp
  show "snd (snd (request new_URL fetch layered_client ''https://example.com/path'' layered_options
      (Some [(''X'', ''4'')]))) =
     [\<lparr>fetch_url = ''https://example.com/path'', fetch_method = Some ''POST'',
       fetch_headers = [(''x'', ''4''), (''y'', ''3'')], fetch_body = None\<rparr>]"
    by (simp add: request_calls example_guard layered_headers) (simp add: layered_options_def)
qed

section \<open>Properties of the request client\<close>

lemma example_headers:
  "request_headers example_client example_options None =
     Inr [(''user-agent'', ''w''), (''cookie'', ''a=1'')]"
  by code_simp

lemma setCookies_Nil: "CookieJar_setCookies jar [] = jar"
  by (simp add: CookieJar_setCookies_def)

text \<open>
  Where the headers cannot be built, on a guarded URL, the promise rejects with the
  TypeError, the transport is not called and the client is as before; so it is with the
  custom header \<open>{"bad name": "v"}\<close>, whatever the transport does.
\<close>

lemma request_rejects:
  assumes "validateUrl newURL url = Inr guarded"
    and "request_headers client options customHeaders = Inl exn"
  shows "request newURL fetch client url options customHeaders = (Rejected exn, client, [])"
  using assms by (simp add: request_def)

lemma request_invalid_header:
  "request new_URL fetch example_client ''https://example.com/path'' example_options
     (Some [(''bad name'', ''v'')]) = (Rejected TypeError, example_client, [])"
proof -
  have "request_headers example_client example_options (Some [(''bad name'', ''v'')]) =
      Inl TypeError"
    by code_simp
  with example_guard show ?thesis by (simp add: request_def)
qed

text \<open>
  Claim C2. When the guard rejects the URL, \<open>request\<close> returns the guard's error, a
  \<open>BadRequestError\<close> with the guard's message, makes no call of the transport, and
  leaves the client, its cookie jar included, as it was.
\<close>

theorem request_blocked:
  assumes "validateUrl newURL url = Inl e"
  shows "request newURL fetch client url options customHeaders =
           (Resolved (Inl e), client, []) \<and>
         (\<exists>m. e = BadRequestError m)"
  using assms validateUrl_error [OF assms] by (simp add: request_def)

theorem request_blocked_witness:
  "validateUrl new_URL ''http://localhost/'' = Inl (BadRequestError ''Blocked hostname: localhost'') \<and>
   request new_URL (\<lambda>call. Inr example_response) example_client ''http://localhost/''
     example_options None =
     (Resolved (Inl (BadRequestError ''Blocked hostname: localhost'')), example_client, [])"
proof -
  have g: "validateUrl new_URL ''http://localhost/'' =
      Inl (BadRequestError ''Blocked hostname: localhost'')"
    by code_simp
  show ?thesis
    using g request_blocked [OF g, of "\<lambda>call. Inr example_response" example_client
        example_options None]
    by simp
qed

text \<open>
  Claim C5. On every call, when the header of the cookie jar is not empty, the \<open>Cookie\<close>
  header handed to the transport is the one of the jar, whatever the custom headers
  hold: the cookie of the jar is set after the custom headers and overwrites the
  caller's value (where the three layers are built and the header of the jar is a valid
  value; the TypeError is thrown otherwise). A client whose jar holds the cookie
  \<open>a=1\<close>, asked for \<open>https://example.com/path\<close> with the custom header
  \<open>Cookie: mine=1\<close>, hands \<open>cookie: a=1\<close> to the transport.
\<close>

theorem cookie_overrides_custom:
  "read_header (request_headers client options customHeaders) ''Cookie'' =
     (case request_layers (defaultHeaders client) (init_headers options) customHeaders of
        Inl e \<Rightarrow> Inl e
      | Inr layers \<Rightarrow>
          if CookieJar_getCookieHeader (cookieJar client) \<noteq> []
          then (if valid_header_value (normalize_value (CookieJar_getCookieHeader (cookieJar client)))
                then Inr (Some (normalize_value (CookieJar_getCookieHeader (cookieJar client))))
                else Inl TypeError)
          else Inr (Headers_get layers ''Cookie'')) \<and>
   request_headers \<lparr>cookieJar = CookieJar_setCookies [] [''a=1''], defaultHeaders = []\<rparr>
     \<lparr>init_method = Some ''GET'', init_headers = None, init_body = None\<rparr>
     (Some [(''Cookie'', ''mine=1'')]) = Inr [(''cookie'', ''a=1'')] \<and>
   snd (snd (request new_URL fetch
      \<lparr>cookieJar = CookieJar_setCookies [] [''a=1''], defaultHeaders = []\<rparr>
      ''https://example.com/path''
      \<lparr>init_method = Some ''GET'', init_headers = None, init_body = None\<rparr>
      (Some [(''Cookie'', ''mine=1'')]))) =
     [\<lparr>fetch_url = ''https://example.com/path'', fetch_method = Some ''GET'',
       fetch_headers = [(''cookie'', ''a=1'')], fetch_body = None\<rparr>]"
proof (intro conjI)
  show "read_header (request_headers client options customHeaders) ''Cookie'' =
     (case request_layers (defaultHeaders client) (init_headers options) customHeaders of
        Inl e \<Rightarrow> Inl e
      | Inr layers \<Rightarrow>
          if CookieJar_getCookieHeader (cookieJar client) \<noteq> []
          then (if valid_header_value (normalize_value (CookieJar_getCookieHeader (cookieJar client)))
                then Inr (Some (normalize_value (CookieJar_getCookieHeader (cookieJar client))))
                else Inl TypeError)
          else Inr (Headers_get layers ''Cookie''))"
    by (rule read_cookie)
  show h: "request_headers \<lparr>cookieJar = CookieJar_setCookies [] [''a=1''], defaultHeaders = []\<rparr>
     \<lparr>init_method = Some ''GET'', init_headers = None, init_body = None\<rparr>
     (Some [(''Cookie'', ''mine=1'')]) = Inr [(''cookie'', ''a=1'')]"
    by code_simp
  show "snd (snd (request new_URL fetch
      \<lparr>cookieJar = CookieJar_setCookies [] [''a=1''], defaultHeaders = []\<rparr>
      ''https://example.com/path''
      \<lparr>init_method = Some ''GET'', init_headers = None, init_body = None\<rparr>
      (Some [(''Cookie'', ''mine=1'')]))) =
     [\<lparr>fetch_url = ''https://example.com/path'', fetch_method = Some ''GET'',
       fetch_headers = [(''cookie'', ''a=1'')], fetch_body = None\<rparr>]"
    by (simp add: request_calls example_guard h)
qed

text \<open>
  Claim C7. When the guard accepts the URL, the headers are built, and the transport
  throws on the call, \<open>request\<close> returns an \<open>InternalServerError\<close> whose message is the
  one of the thrown \<open>Error\<close>, or "Network request failed" when what was thrown is no
  \<open>Error\<close>. The promise resolves: nothing is thrown on. The one call of the transport
  is made, and the client and its cookie jar are as before.
\<close>

theorem request_network_error:
  assumes "validateUrl newURL url = Inr guarded"
    and "request_headers client options customHeaders = Inr headers"
    and "fetch \<lparr>fetch_url = url, fetch_method = init_method options,
                 fetch_headers = headers, fetch_body = init_body options\<rparr> = Inl thrown"
  shows "request newURL fetch client url options customHeaders =
           (Resolved (Inl (InternalServerError
                  (case thrown of Error m \<Rightarrow> m | NonError \<Rightarrow> ''Network request failed''))),
            client,
            [\<lparr>fetch_url = url, fetch_method = init_method options,
              fetch_headers = headers, fetch_body = init_body options\<rparr>])"
  using assms by (simp add: request_def Let_def)

theorem request_network_error_witness:
  "validateUrl new_URL ''https://example.com/path'' =
     Inr \<lparr>protocol = ''https:'', hostname = ''example.com'', port = None\<rparr> \<and>
   request_headers example_client example_options None =
     Inr [(''user-agent'', ''w''), (''cookie'', ''a=1'')] \<and>
   request new_URL (\<lambda>call. Inl (Error ''connection refused'')) example_client
     ''https://example.com/path'' example_options None =
     (Resolved (Inl (InternalServerError ''connection refused'')), example_client,
      [\<lparr>fetch_url = ''https://example.com/path'', fetch_method = Some ''GET'',
        fetch_headers = [(''user-agent'', ''w''), (''cookie'', ''a=1'')], fetch_body = None\<rparr>]) \<and>
   request new_URL (\<lambda>call. Inl NonError) example_client
     ''https://example.com/path'' example_options None =
     (Resolved (Inl (InternalServerError ''Network request failed'')), example_client,
      [\<lparr>fetch_url = ''https://example.com/path'', fetch_method = Some ''GET'',
        fetch_headers = [(''user-agent'', ''w''), (''cookie'', ''a=1'')], fetch_body = None\<rparr>])"
  using example_guard example_headers
    request_network_error [OF example_guard example_headers,
      of "\<lambda>call. Inl (Error ''connection refused'')" "Error ''connection refused''"]
    request_network_error [OF example_guard example_headers,
      of "\<lambda>call. Inl NonError" NonError]
  by simp (simp add: example_options_def)

text \<open>
  Claim C8. When the guard accepts the URL, the headers are built, and the transport
  answers the call with a response, of any status, \<open>request\<close> returns that response as
  a success and the cookie jar has ingested all \<open>Set-Cookie\<close> values of the response,
  in order. And \<open>request\<close> returns a success only for a URL that the guard accepted.
\<close>

theorem request_success:
  "(validateUrl newURL url = Inr guarded \<and>
    request_headers client options customHeaders = Inr headers \<and>
    fetch \<lparr>fetch_url = url, fetch_method = init_method options,
            fetch_headers = headers, fetch_body = init_body options\<rparr> = Inr res \<longrightarrow>
    request newURL fetch client url options customHeaders =
      (Resolved (Inr res),
       client\<lparr>cookieJar :=
         CookieJar_setCookies (cookieJar client) (Headers_getSetCookie (response_headers res))\<rparr>,
       [\<lparr>fetch_url = url, fetch_method = init_method options,
         fetch_headers = headers, fetch_body = init_body options\<rparr>])) \<and>
   (fst (request newURL fetch client url options customHeaders) = Resolved (Inr res) \<longrightarrow>
      (\<exists>u. validateUrl newURL url = Inr u))"
proof (intro conjI impI)
  assume "validateUrl newURL url = Inr guarded \<and>
    request_headers client options customHeaders = Inr headers \<and>
    fetch \<lparr>fetch_url = url, fetch_method = init_method options,
            fetch_headers = headers, fetch_body = init_body options\<rparr> = Inr res"
  then show "request newURL fetch client url options customHeaders =
      (Resolved (Inr res),
       client\<lparr>cookieJar :=
         CookieJar_setCookies (cookieJar client) (Headers_getSetCookie (response_headers res))\<rparr>,
       [\<lparr>fetch_url = url, fetch_method = init_method options,
         fetch_headers = headers, fetch_body = init_body options\<rparr>])"
    by (cases "Headers_getSetCookie (response_headers res)")
       (simp_all add: request_def Let_def setCookies_Nil)
next
  assume "fst (request newURL fetch client url options customHeaders) = Resolved (Inr res)"
  then show "\<exists>u. validateUrl newURL url = Inr u"
    by (cases "validateUrl newURL url") (simp_all add: request_def)
qed

theorem request_success_witness:
  "validateUrl new_URL ''https://example.com/path'' =
     Inr \<lparr>protocol = ''https:'', hostname = ''example.com'', port = None\<rparr> \<and>
   request_headers example_client example_options None =
     Inr [(''user-agent'', ''w''), (''cookie'', ''a=1'')] \<and>
   request new_URL (\<lambda>call. Inr example_response) example_client
     ''https://example.com/path'' example_options None =
     (Resolved (Inr example_response),
      example_client\<lparr>cookieJar := [(''a'', ''1''), (''s'', ''1''), (''t'', ''2'')]\<rparr>,
      [\<lparr>fetch_url = ''https://example.com/path'', fetch_method = Some ''GET'',
        fetch_headers = [(''user-agent'', ''w''), (''cookie'', ''a=1'')], fetch_body = None\<rparr>]) \<and>
   (\<exists>u. validateUrl new_URL ''https://example.com/path'' = Inr u)"
proof -
  have jar: "CookieJar_setCookies (cookieJar example_client)
      (Headers_getSetCookie (response_headers example_response)) =
      [(''a'', ''1''), (''s'', ''1''), (''t'', ''2'')]"
    by code_simp
  note t = request_success [of new_URL "''https://example.com/path''"
      "\<lparr>protocol = ''https:'', hostname = ''example.com'', port = None\<rparr>"
      example_client example_options None "[(''user-agent'', ''w''), (''cookie'', ''a=1'')]"
      "\<lambda>call. Inr example_response" example_response]
  have r: "request new_URL (\<lambda>call. Inr example_response) example_client
     ''https://example.com/path'' example_options None =
     (Resolved (Inr example_response),
      example_client\<lparr>cookieJar := [(''a'', ''1''), (''s'', ''1''), (''t'', ''2'')]\<rparr>,
      [\<lparr>fetch_url = ''https://example.com/path'', fetch_method = Some ''GET'',
        fetch_headers = [(''user-agent'', ''w''), (''cookie'', ''a=1'')], fetch_body = None\<rparr>])"
    using t example_guard example_headers by (simp add: jar) (simp add: example_options_def)
  then have "fst (request new_URL (\<lambda>call. Inr example_response) example_client
     ''https://example.com/path'' example_options None) = Resolved (Inr example_response)"
    by simp
  with t have "\<exists>u. validateUrl new_URL ''https://example.com/path'' = Inr u"
    by blast
  with r example_guard example_headers show ?thesis by simp
qed

section \<open>Properties of the cookie jar\<close>

lemma upsert_names:
  "map fst (upsert n v jar) = (if n \<in> set (map fst jar) then map fst jar else map fst jar @ [n])"
  by (induction jar) force+

text \<open>
  Claim C9. From the empty store, the lines \<open>a=1\<close> then \<open>b=2\<close> (in one call or in two)
  give the header \<open>a=1; b=2\<close>; the line \<open>a=9\<close> after them updates \<open>a\<close> where it
  stands, so that the header is \<open>a=9; b=2\<close>; the header of the empty store is empty.
  An upsert never moves a name that is stored.
\<close>

theorem cookie_round_trip:
  "CookieJar_getCookieHeader (CookieJar_setCookies [] [''a=1'', ''b=2'']) = ''a=1; b=2'' \<and>
   CookieJar_getCookieHeader (CookieJar_setCookies (CookieJar_setCookies [] [''a=1'']) [''b=2'']) =
     ''a=1; b=2'' \<and>
   CookieJar_setCookies (CookieJar_setCookies [] [''a=1'', ''b=2'']) [''a=9''] =
     [(''a'', ''9''), (''b'', ''2'')] \<and>
   CookieJar_getCookieHeader (CookieJar_setCookies (CookieJar_setCookies [] [''a=1'', ''b=2'']) [''a=9'']) =
     ''a=9; b=2'' \<and>
   CookieJar_getCookieHeader [] = [] \<and>
   map fst (upsert n v jar) = (if n \<in> set (map fst jar) then map fst jar else map fst jar @ [n])"
  by (intro conjI; (code_simp | rule upsert_names))

end
